theory Spec2Isabelle
  imports Main "HOL-Library.Sublist"
begin

section \<open>Strings\<close>

text \<open>
  A Python \<open>str\<close> is modelled as a \<open>string\<close>; one \<open>char\<close> stands for one code
  point below 256, so \<open>length\<close> is Python's \<open>len\<close> on that range.
  \<open>isspace\<close> lists the code points below 256 that \<open>str.strip()\<close> removes:
  U+0009..U+000D, U+001C..U+0020, U+0085 and U+00A0.
\<close>

definition isspace :: "char \<Rightarrow> bool" where
  "isspace c = (let n = (of_char c :: nat) in
     (9 \<le> n \<and> n \<le> 13) \<or> (28 \<le> n \<and> n \<le> 32) \<or> n = 133 \<or> n = 160)"

definition strip :: "string \<Rightarrow> string" where
  "strip s = rev (dropWhile isspace (rev (dropWhile isspace s)))"

text \<open>Decimal rendering of an integer inside an f-string.\<close>

fun str_nat :: "nat \<Rightarrow> string" where
  "str_nat n =
     (if n < 10 then [''0123456789'' ! n]
      else str_nat (n div 10) @ [''0123456789'' ! (n mod 10)])"

definition str_int :: "int \<Rightarrow> string" where
  "str_int i = (if i < 0 then CHR ''-'' # str_nat (nat (- i)) else str_nat (nat i))"

text \<open>The text \<open>'{s}'\<close> of an f-string: \<open>s\<close> between two apostrophes.\<close>

definition quoted :: "string \<Rightarrow> string" where
  "quoted s = CHR 0x27 # s @ [CHR 0x27]"

section \<open>Task records and the storage session\<close>

type_synonym timestamp = int

text \<open>
  Modelled from the spec: the \<open>Task\<close> table class of \<open>models.py\<close> is imported by both
  source files and is not among them. Section 3 of the specification gives its fields;
  \<open>Task_id\<close> is the attribute \<open>Task.id\<close>, and each other field \<open>Task_f\<close> is the
  attribute \<open>Task.f\<close>.
\<close>

record Task =
  Task_id :: int
  Task_user_id :: string
  Task_title :: string
  Task_description :: string
  Task_completed :: bool
  Task_created_at :: timestamp
  Task_updated_at :: timestamp

text \<open>
  Modelled from the spec: the engine behind \<open>db.get_engine\<close> / \<open>db.get_session\<close> is not
  among the source files. Section 6 describes it as a transactional handle with
  get/add/commit/delete over Task records; it is a table of rows in table order together
  with the next primary key the store will assign.
\<close>

record db =
  rows :: "Task list"
  next_id :: int

text \<open>\<open>session.get(Task, task_id)\<close>: the row with that primary key, or \<open>None\<close>.\<close>

definition session_get :: "db \<Rightarrow> int \<Rightarrow> Task option" where
  "session_get d k = find (\<lambda>r. Task_id r = k) (rows d)"

text \<open>
  Modelled from the spec: \<open>Task(user_id=..., title=..., description=...)\<close> followed by
  \<open>session.add\<close>, \<open>session.commit\<close> and \<open>session.refresh\<close> on a new object. The
  store assigns the id; \<open>completed\<close> defaults to false and both timestamps are the
  current time (sections 3 and 4.1). The refreshed object is returned with the new state.
\<close>

definition session_add_new :: "db \<Rightarrow> timestamp \<Rightarrow> string \<Rightarrow> string \<Rightarrow> string \<Rightarrow> Task \<times> db" where
  "session_add_new d now user_id title description =
     (let task = \<lparr>Task_id = next_id d, Task_user_id = user_id, Task_title = title,
                   Task_description = description, Task_completed = False,
                   Task_created_at = now, Task_updated_at = now\<rparr>
      in (task, d\<lparr>rows := rows d @ [task], next_id := next_id d + 1\<rparr>))"

text \<open>
  \<open>session.add(task); session.commit()\<close> on an object that was loaded with
  \<open>session.get\<close>: the row with the object's primary key takes the object's state.
\<close>

definition session_commit :: "db \<Rightarrow> Task \<Rightarrow> db" where
  "session_commit d task =
     d\<lparr>rows := map (\<lambda>r. if Task_id r = Task_id task then task else r) (rows d)\<rparr>"

text \<open>\<open>session.delete(task); session.commit()\<close>: the row is removed.\<close>

definition session_delete :: "db \<Rightarrow> Task \<Rightarrow> db" where
  "session_delete d task = d\<lparr>rows := filter (\<lambda>r. Task_id r \<noteq> Task_id task) (rows d)\<rparr>"

section \<open>The agent tools of \<open>mcp/tools.py\<close>\<close>

text \<open>
  Every tool returns a dictionary. \<open>Failure e\<close> is \<open>{"success": False, "error": e}\<close>;
  \<open>Success p m\<close> is \<open>{"success": True, ..., "message": m}\<close> with the remaining keys
  collected in the payload \<open>p\<close>.
\<close>

datatype 'p envelope = Failure string | Success 'p string

fun success :: "'p envelope \<Rightarrow> bool" where
  "success (Failure e) = False"
| "success (Success p m) = True"

text \<open>
  The \<open>"task"\<close> dictionary of \<open>add_task\<close> and the elements of \<open>"tasks"\<close> in
  \<open>list_tasks\<close>: keys id, title, description, completed, created_at.
\<close>

record task_dict =
  d_id :: int
  d_title :: string
  d_description :: string
  d_completed :: bool
  d_created_at :: timestamp

definition task_dict_of :: "Task \<Rightarrow> task_dict" where
  "task_dict_of task =
     \<lparr>d_id = Task_id task, d_title = Task_title task, d_description = Task_description task,
      d_completed = Task_completed task, d_created_at = Task_created_at task\<rparr>"

text \<open>
  \<open>add_task\<close>. The three checks run on the arguments as given; \<open>strip\<close> is applied
  when the Task object is built.
\<close>

definition add_task :: "db \<Rightarrow> timestamp \<Rightarrow> string \<Rightarrow> string \<Rightarrow> string \<Rightarrow> task_dict envelope \<times> db" where
  "add_task d now user_id title description =
     (if title = [] \<or> strip title = [] then
        (Failure ''Task title is required'', d)
      else if length title > 200 then
        (Failure ''Task title must be 200 characters or less'', d)
      else if length description > 1000 then
        (Failure ''Description must be 1000 characters or less'', d)
      else
        (let (task, d') = session_add_new d now user_id (strip title)
                            (if description \<noteq> [] then strip description else [])
         in (Success (task_dict_of task)
               (''Task '' @ quoted (Task_title task) @ '' has been added successfully.''),
             d')))"

text \<open>
  \<open>list_tasks\<close>. The statement is \<open>SELECT ... WHERE user_id = ? [AND completed = false]
  LIMIT ?\<close> with \<open>limit\<close> an integer that is passed to the engine as given. The engine
  is not among the source files: a non-negative \<open>LIMIT\<close> keeps that many leading rows,
  and a negative one is taken as no bound at all, which is how SQLite reads it. The
  session is only read.
\<close>

record list_payload =
  p_tasks :: "task_dict list"
  p_total :: nat
  p_pending :: nat
  p_completed :: nat

definition select_tasks :: "db \<Rightarrow> string \<Rightarrow> bool \<Rightarrow> int \<Rightarrow> Task list" where
  "select_tasks d user_id include_completed limit =
     (let statement = filter (\<lambda>r. Task_user_id r = user_id) (rows d);
          statement = (if \<not> include_completed
                       then filter (\<lambda>r. Task_completed r = False) statement
                       else statement)
      in if limit < 0 then statement else take (nat limit) statement)"

definition list_tasks :: "db \<Rightarrow> string \<Rightarrow> bool \<Rightarrow> int \<Rightarrow> list_payload envelope" where
  "list_tasks d user_id include_completed limit =
     (let tasks = select_tasks d user_id include_completed limit;
          task_list = map task_dict_of tasks;
          pending_count = length (filter (\<lambda>t. \<not> d_completed t) task_list);
          completed_count = length (filter (\<lambda>t. d_completed t) task_list)
      in Success \<lparr>p_tasks = task_list, p_total = length task_list,
                   p_pending = pending_count, p_completed = completed_count\<rparr>
           (''Found '' @ str_nat (length task_list) @ '' task(s): '' @ str_nat pending_count
            @ '' pending, '' @ str_nat completed_count @ '' completed.''))"

text \<open>The defaults of \<open>list_tasks\<close>: \<open>include_completed=True\<close>, \<open>limit=50\<close>.\<close>

definition list_tasks_default :: "db \<Rightarrow> string \<Rightarrow> list_payload envelope" where
  "list_tasks_default d user_id = list_tasks d user_id True 50"

text \<open>\<open>complete_task\<close>; its \<open>"task"\<close> dictionary has the keys id, title, completed.\<close>

definition complete_task :: "db \<Rightarrow> timestamp \<Rightarrow> string \<Rightarrow> int \<Rightarrow> (int \<times> string \<times> bool) envelope \<times> db" where
  "complete_task d now user_id task_id =
     (case session_get d task_id of
        None \<Rightarrow> (Failure (''Task with ID '' @ str_int task_id @ '' not found''), d)
      | Some task \<Rightarrow>
          if Task_user_id task \<noteq> user_id then (Failure ''Task not found'', d)
          else if Task_completed task then
            (Success (Task_id task, Task_title task, Task_completed task)
               (''Task '' @ quoted (Task_title task) @ '' was already completed.''), d)
          else
            (let task = task\<lparr>Task_completed := True, Task_updated_at := now\<rparr>;
                 d' = session_commit d task
             in (Success (Task_id task, Task_title task, Task_completed task)
                   (''Task '' @ quoted (Task_title task) @ '' has been marked as completed.''),
                 d')))"

text \<open>\<open>delete_task\<close>; the payload is \<open>"deleted_task_id"\<close>.\<close>

definition delete_task :: "db \<Rightarrow> string \<Rightarrow> int \<Rightarrow> int envelope \<times> db" where
  "delete_task d user_id task_id =
     (case session_get d task_id of
        None \<Rightarrow> (Failure (''Task with ID '' @ str_int task_id @ '' not found''), d)
      | Some task \<Rightarrow>
          if Task_user_id task \<noteq> user_id then (Failure ''Task not found'', d)
          else
            (let task_title = Task_title task;
                 d' = session_delete d task
             in (Success task_id (''Task '' @ quoted task_title @ '' has been deleted.''), d')))"

text \<open>
  \<open>update_task\<close>; \<open>None\<close> is an argument that was not supplied. Its \<open>"task"\<close>
  dictionary has the keys id, title, description, completed, updated_at.
\<close>

record updated_dict =
  u_id :: int
  u_title :: string
  u_description :: string
  u_completed :: bool
  u_updated_at :: timestamp

definition update_task ::
  "db \<Rightarrow> timestamp \<Rightarrow> string \<Rightarrow> int \<Rightarrow> string option \<Rightarrow> string option \<Rightarrow> updated_dict envelope \<times> db" where
  "update_task d now user_id task_id title description =
     (if title = None \<and> description = None then
        (Failure ''At least one field (title or description) must be provided'', d)
      else if (case title of None \<Rightarrow> False | Some s \<Rightarrow> length s > 200) then
        (Failure ''Task title must be 200 characters or less'', d)
      else if (case description of None \<Rightarrow> False | Some s \<Rightarrow> length s > 1000) then
        (Failure ''Description must be 1000 characters or less'', d)
      else
        (case session_get d task_id of
           None \<Rightarrow> (Failure (''Task with ID '' @ str_int task_id @ '' not found''), d)
         | Some task \<Rightarrow>
             if Task_user_id task \<noteq> user_id then (Failure ''Task not found'', d)
             else
               (let task = (case title of None \<Rightarrow> task
                            | Some s \<Rightarrow> task\<lparr>Task_title := strip s\<rparr>);
                    task = (case description of None \<Rightarrow> task
                            | Some s \<Rightarrow> task\<lparr>Task_description := strip s\<rparr>);
                    task = task\<lparr>Task_updated_at := now\<rparr>;
                    d' = session_commit d task
                in (Success \<lparr>u_id = Task_id task, u_title = Task_title task,
                              u_description = Task_description task,
                              u_completed = Task_completed task,
                              u_updated_at = Task_updated_at task\<rparr>
                      (''Task '' @ quoted (Task_title task) @ '' has been updated.''),
                    d'))))"

section \<open>The HTTP operations of \<open>routes/tasks.py\<close>\<close>

text \<open>
  A handler either returns its value or raises. \<open>HTTPException s m\<close> is the exception
  the handlers raise themselves; \<open>RequestValidationError\<close> is what the framework raises
  when the request body does not satisfy the declared schema, before the handler body
  runs, and is answered with status 422.
\<close>

datatype http_error = HTTPException nat string | RequestValidationError

fun status_code :: "http_error \<Rightarrow> nat" where
  "status_code (HTTPException s m) = s"
| "status_code RequestValidationError = 422"

text \<open>
  The status of a response: the error's status, or the success status declared on the
  route (200 by default, 201 for POST, 204 for DELETE).
\<close>

definition response_status :: "nat \<Rightarrow> http_error + 'a \<Rightarrow> nat" where
  "response_status ok r = (case r of Inl e \<Rightarrow> status_code e | Inr v \<Rightarrow> ok)"

text \<open>
  The request schemas. \<open>TaskCreate\<close>: \<open>title\<close> with \<open>min_length=1, max_length=200\<close>,
  \<open>description\<close> with \<open>max_length=1000\<close>. \<open>TaskUpdate\<close>: both fields optional with
  default \<open>None\<close>; a supplied title has \<open>min_length=1, max_length=200\<close>, a supplied
  description \<open>max_length=1000\<close>. The constraints count the characters of the value as
  sent.
\<close>

record TaskCreate =
  create_title :: string
  create_description :: string

definition TaskCreate_valid :: "TaskCreate \<Rightarrow> bool" where
  "TaskCreate_valid task_data =
     (1 \<le> length (create_title task_data) \<and> length (create_title task_data) \<le> 200
      \<and> length (create_description task_data) \<le> 1000)"

record TaskUpdate =
  update_title :: "string option"
  update_description :: "string option"

definition TaskUpdate_valid :: "TaskUpdate \<Rightarrow> bool" where
  "TaskUpdate_valid task_data =
     ((case update_title task_data of None \<Rightarrow> True
       | Some s \<Rightarrow> 1 \<le> length s \<and> length s \<le> 200)
      \<and> (case update_description task_data of None \<Rightarrow> True
         | Some s \<Rightarrow> length s \<le> 1000))"

definition verify_user_access :: "string \<Rightarrow> string \<Rightarrow> http_error + unit" where
  "verify_user_access url_user_id token_user_id =
     (if url_user_id \<noteq> token_user_id
      then Inl (HTTPException 403 ''Access denied: user_id mismatch'')
      else Inr ())"

definition get_task_or_404 :: "db \<Rightarrow> string \<Rightarrow> int \<Rightarrow> http_error + Task" where
  "get_task_or_404 session user_id task_id =
     (case session_get session task_id of
        None \<Rightarrow> Inl (HTTPException 404 ''Task not found'')
      | Some task \<Rightarrow>
          if Task_user_id task \<noteq> user_id then Inl (HTTPException 404 ''Task not found'')
          else Inr task)"

text \<open>
  In each handler \<open>user_id\<close> is the path parameter and \<open>user\<close> the user id of the
  authenticated caller (\<open>user.user_id\<close>). Handlers of the same name as a tool carry the
  prefix \<open>routes_\<close>.
\<close>

definition routes_list_tasks :: "db \<Rightarrow> string \<Rightarrow> string \<Rightarrow> http_error + Task list" where
  "routes_list_tasks session user_id user =
     (case verify_user_access user_id user of
        Inl e \<Rightarrow> Inl e
      | Inr u \<Rightarrow> Inr (filter (\<lambda>r. Task_user_id r = user_id) (rows session)))"

definition create_task ::
  "db \<Rightarrow> timestamp \<Rightarrow> string \<Rightarrow> TaskCreate \<Rightarrow> string \<Rightarrow> (http_error + Task) \<times> db" where
  "create_task session now user_id task_data user =
     (if \<not> TaskCreate_valid task_data then (Inl RequestValidationError, session)
      else case verify_user_access user_id user of
        Inl e \<Rightarrow> (Inl e, session)
      | Inr u \<Rightarrow>
          (let (task, session') = session_add_new session now user_id
                                    (create_title task_data) (create_description task_data)
           in (Inr task, session')))"

definition get_task :: "db \<Rightarrow> string \<Rightarrow> int \<Rightarrow> string \<Rightarrow> http_error + Task" where
  "get_task session user_id task_id user =
     (case verify_user_access user_id user of
        Inl e \<Rightarrow> Inl e
      | Inr u \<Rightarrow> get_task_or_404 session user_id task_id)"

definition routes_update_task ::
  "db \<Rightarrow> timestamp \<Rightarrow> string \<Rightarrow> int \<Rightarrow> TaskUpdate \<Rightarrow> string \<Rightarrow> (http_error + Task) \<times> db" where
  "routes_update_task session now user_id task_id task_data user =
     (if \<not> TaskUpdate_valid task_data then (Inl RequestValidationError, session)
      else case verify_user_access user_id user of
        Inl e \<Rightarrow> (Inl e, session)
      | Inr u \<Rightarrow>
          (case get_task_or_404 session user_id task_id of
             Inl e \<Rightarrow> (Inl e, session)
           | Inr task \<Rightarrow>
               (let task = (case update_title task_data of None \<Rightarrow> task
                            | Some s \<Rightarrow> task\<lparr>Task_title := s\<rparr>);
                    task = (case update_description task_data of None \<Rightarrow> task
                            | Some s \<Rightarrow> task\<lparr>Task_description := s\<rparr>);
                    task = task\<lparr>Task_updated_at := now\<rparr>
                in (Inr task, session_commit session task))))"

definition routes_delete_task ::
  "db \<Rightarrow> string \<Rightarrow> int \<Rightarrow> string \<Rightarrow> (http_error + unit) \<times> db" where
  "routes_delete_task session user_id task_id user =
     (case verify_user_access user_id user of
        Inl e \<Rightarrow> (Inl e, session)
      | Inr u \<Rightarrow>
          (case get_task_or_404 session user_id task_id of
             Inl e \<Rightarrow> (Inl e, session)
           | Inr task \<Rightarrow> (Inr (), session_delete session task)))"

definition toggle_complete ::
  "db \<Rightarrow> timestamp \<Rightarrow> string \<Rightarrow> int \<Rightarrow> string \<Rightarrow> (http_error + Task) \<times> db" where
  "toggle_complete session now user_id task_id user =
     (case verify_user_access user_id user of
        Inl e \<Rightarrow> (Inl e, session)
      | Inr u \<Rightarrow>
          (case get_task_or_404 session user_id task_id of
             Inl e \<Rightarrow> (Inl e, session)
           | Inr task \<Rightarrow>
               (let task = task\<lparr>Task_completed := \<not> Task_completed task\<rparr>;
                    task = task\<lparr>Task_updated_at := now\<rparr>
                in (Inr task, session_commit session task))))"

section \<open>A store used in the examples\<close>

text \<open>
  Tasks 1 and 3 belong to alice, task 2 to bob; task 1 is pending, tasks 2 and 3 are
  completed. No task has the id 7.
\<close>

definition task1 :: Task where
  "task1 = \<lparr>Task_id = 1, Task_user_id = ''alice'', Task_title = ''Buy milk'',
            Task_description = ''2 litres'', Task_completed = False,
            Task_created_at = 10, Task_updated_at = 10\<rparr>"

definition task2 :: Task where
  "task2 = \<lparr>Task_id = 2, Task_user_id = ''bob'', Task_title = ''Pay rent'',
            Task_description = [], Task_completed = True,
            Task_created_at = 11, Task_updated_at = 12\<rparr>"

definition task3 :: Task where
  "task3 = \<lparr>Task_id = 3, Task_user_id = ''alice'', Task_title = ''Call mum'',
            Task_description = ''after six'', Task_completed = True,
            Task_created_at = 13, Task_updated_at = 20\<rparr>"

definition db0 :: db where
  "db0 = \<lparr>rows = [task1, task2, task3], next_id = 4\<rparr>"

section \<open>Facts about \<open>strip\<close>\<close>

lemma strip_Nil: "strip [] = []"
  by (simp add: strip_def)

lemma strip_eq_Nil_iff: "strip s = [] \<longleftrightarrow> (\<forall>c \<in> set s. isspace c)"
proof
  assume "strip s = []"
  then have all: "\<forall>c \<in> set (dropWhile isspace s). isspace c"
    by (simp add: strip_def dropWhile_eq_Nil_conv)
  have "dropWhile isspace s = []"
  proof (rule ccontr)
    assume ne: "dropWhile isspace s \<noteq> []"
    then have "\<not> isspace (hd (dropWhile isspace s))" by (rule hd_dropWhile)
    moreover have "hd (dropWhile isspace s) \<in> set (dropWhile isspace s)" using ne by simp
    ultimately show False using all by blast
  qed
  then show "\<forall>c \<in> set s. isspace c" by (simp add: dropWhile_eq_Nil_conv)
next
  assume "\<forall>c \<in> set s. isspace c"
  then show "strip s = []" by (auto simp: strip_def dest: set_dropWhileD)
qed

lemma length_strip_le: "length (strip s) \<le> length s"
  using length_dropWhile_le[of isspace "rev (dropWhile isspace s)"]
    length_dropWhile_le[of isspace s]
  by (simp add: strip_def)

lemma strip_space_Cons: "isspace c \<Longrightarrow> strip (c # s) = strip s"
  by (simp add: strip_def)

lemma dropWhile_replicate_id: "\<not> P c \<Longrightarrow> dropWhile P (replicate n c) = replicate n c"
  by (cases n) simp_all

lemma strip_replicate: "\<not> isspace c \<Longrightarrow> strip (replicate n c) = replicate n c"
  by (simp add: strip_def dropWhile_replicate_id)

lemma isspace_space: "isspace CHR '' ''"
  by (simp add: isspace_def)

lemma not_isspace_x: "\<not> isspace CHR ''x''"
  by (simp add: isspace_def)

section \<open>Facts about the storage session\<close>

lemma session_get_Task_id: "session_get d k = Some t \<Longrightarrow> Task_id t = k"
  by (auto simp: session_get_def find_Some_iff)

lemma find_map_replace:
  "find (\<lambda>r. Task_id r = k) rs = Some t \<Longrightarrow> Task_id t' = k \<Longrightarrow>
   find (\<lambda>r. Task_id r = k) (map (\<lambda>r. if Task_id r = k then t' else r) rs) = Some t'"
  by (induction rs) (auto split: if_splits)

lemma session_get_commit:
  "session_get d k = Some t \<Longrightarrow> Task_id t' = k \<Longrightarrow> session_get (session_commit d t') k = Some t'"
  by (simp add: session_get_def session_commit_def find_map_replace)

lemma session_get_db0_1: "session_get db0 1 = Some task1"
  by (simp add: session_get_def db0_def task1_def)

lemma session_get_db0_2: "session_get db0 2 = Some task2"
  by (simp add: session_get_def db0_def task1_def task2_def)

lemma session_get_db0_7: "session_get db0 7 = None"
  by (simp add: session_get_def db0_def task1_def task2_def task3_def)

section \<open>Completion through the agent tool\<close>

text \<open>
  C3: \<open>complete_task\<close> is idempotent. For a task of the caller that is already
  completed it returns success with the storage unchanged (so \<open>updated_at\<close> is not
  touched) and the message "... was already completed."; for a pending task it stores
  \<open>completed = True\<close> and \<open>updated_at = now\<close> with the message "... has been marked as
  completed.". A second call, at any later time, changes nothing and reports "already
  completed"; the two messages differ.
\<close>

theorem complete_task_idempotent:
  assumes "session_get d task_id = Some task" and "Task_user_id task = user_id"
  shows
    "(Task_completed task \<longrightarrow>
        complete_task d now user_id task_id =
          (Success (task_id, Task_title task, True)
             (''Task '' @ quoted (Task_title task) @ '' was already completed.''), d))
     \<and> (\<not> Task_completed task \<longrightarrow>
        complete_task d now user_id task_id =
          (Success (task_id, Task_title task, True)
             (''Task '' @ quoted (Task_title task) @ '' has been marked as completed.''),
           session_commit d (task\<lparr>Task_completed := True, Task_updated_at := now\<rparr>))
        \<and> session_get (snd (complete_task d now user_id task_id)) task_id
            = Some (task\<lparr>Task_completed := True, Task_updated_at := now\<rparr>))
     \<and> complete_task (snd (complete_task d now user_id task_id)) now' user_id task_id =
          (Success (task_id, Task_title task, True)
             (''Task '' @ quoted (Task_title task) @ '' was already completed.''),
           snd (complete_task d now user_id task_id))
     \<and> sublist ''already completed''
          (''Task '' @ quoted (Task_title task) @ '' was already completed.'')
     \<and> sublist ''marked as completed''
          (''Task '' @ quoted (Task_title task) @ '' has been marked as completed.'')
     \<and> ''Task '' @ quoted (Task_title task) @ '' was already completed.''
         \<noteq> ''Task '' @ quoted (Task_title task) @ '' has been marked as completed.''"
proof -
  let ?done = "task\<lparr>Task_completed := True, Task_updated_at := now\<rparr>"
  have tid: "Task_id task = task_id"
    using assms(1) by (rule session_get_Task_id)
  have already: "complete_task d0 t0 user_id task_id =
      (Success (task_id, Task_title task0, True)
         (''Task '' @ quoted (Task_title task0) @ '' was already completed.''), d0)"
    if "session_get d0 task_id = Some task0" "Task_user_id task0 = user_id" "Task_completed task0"
    for d0 t0 task0
    using that session_get_Task_id[OF that(1)] by (simp add: complete_task_def)
  have fresh: "complete_task d now user_id task_id =
      (Success (task_id, Task_title task, True)
         (''Task '' @ quoted (Task_title task) @ '' has been marked as completed.''),
       session_commit d ?done)"
    if "\<not> Task_completed task"
    using that assms tid by (simp add: complete_task_def)
  have stored: "session_get (session_commit d ?done) task_id = Some ?done"
    using assms(1) tid by (intro session_get_commit) simp_all
  have second: "complete_task (snd (complete_task d now user_id task_id)) now' user_id task_id =
      (Success (task_id, Task_title task, True)
         (''Task '' @ quoted (Task_title task) @ '' was already completed.''),
       snd (complete_task d now user_id task_id))"
  proof (cases "Task_completed task")
    case True
    then show ?thesis using already[OF assms True] by simp
  next
    case False
    have "complete_task (session_commit d ?done) now' user_id task_id =
      (Success (task_id, Task_title ?done, True)
         (''Task '' @ quoted (Task_title ?done) @ '' was already completed.''),
       session_commit d ?done)"
      using stored assms(2) by (intro already) simp_all
    then show ?thesis using fresh[OF False] by simp
  qed
  have sub1: "sublist ''already completed''
      (''Task '' @ quoted (Task_title task) @ '' was already completed.'')"
    unfolding sublist_def
    by (rule exI[of _ "''Task '' @ quoted (Task_title task) @ '' was ''"], rule exI[of _ "''.''"]) simp
  have sub2: "sublist ''marked as completed''
      (''Task '' @ quoted (Task_title task) @ '' has been marked as completed.'')"
    unfolding sublist_def
    by (rule exI[of _ "''Task '' @ quoted (Task_title task) @ '' has been ''"], rule exI[of _ "''.''"]) simp
  have neq: "''Task '' @ quoted (Task_title task) @ '' was already completed.''
         \<noteq> ''Task '' @ quoted (Task_title task) @ '' has been marked as completed.''"
    by simp
  show ?thesis
    using already[OF assms] fresh stored second sub1 sub2 neq by simp
qed

text \<open>The theorem at task 1 of \<open>db0\<close>, completed at time 5 and again at time 9.\<close>

theorem complete_task_idempotent_witness:
  "session_get db0 1 = Some task1 \<and> Task_user_id task1 = ''alice'' \<and> \<not> Task_completed task1
   \<and> fst (complete_task db0 5 ''alice'' 1) =
       Success (1, ''Buy milk'', True) (''Task '' @ quoted ''Buy milk'' @ '' has been marked as completed.'')
   \<and> session_get (snd (complete_task db0 5 ''alice'' 1)) 1
       = Some (task1\<lparr>Task_completed := True, Task_updated_at := 5\<rparr>)
   \<and> complete_task (snd (complete_task db0 5 ''alice'' 1)) 9 ''alice'' 1 =
       (Success (1, ''Buy milk'', True) (''Task '' @ quoted ''Buy milk'' @ '' was already completed.''),
        snd (complete_task db0 5 ''alice'' 1))"
proof -
  have h1: "session_get db0 1 = Some task1" by (rule session_get_db0_1)
  have h2: "Task_user_id task1 = ''alice''" by (simp add: task1_def)
  have h3: "\<not> Task_completed task1" by (simp add: task1_def)
  have h4: "Task_title task1 = ''Buy milk''" by (simp add: task1_def)
  show ?thesis
    using h3 h4 h1 h2 complete_task_idempotent[OF h1 h2, of 5 9] by auto
qed

section \<open>Failed tool calls\<close>

text \<open>
  C6: whenever a tool returns a failure (\<open>success = False\<close>), the storage after the
  call is the storage before it. This holds for \<open>add_task\<close>, \<open>complete_task\<close>,
  \<open>delete_task\<close> and \<open>update_task\<close>; \<open>list_tasks\<close> never fails and only reads.
\<close>

theorem failed_tool_leaves_storage_unchanged:
  "(\<not> success (fst (add_task d now user_id title description))
      \<longrightarrow> snd (add_task d now user_id title description) = d)
   \<and> success (list_tasks d user_id include_completed limit)
   \<and> (\<not> success (fst (complete_task d now user_id task_id))
      \<longrightarrow> snd (complete_task d now user_id task_id) = d)
   \<and> (\<not> success (fst (delete_task d user_id task_id))
      \<longrightarrow> snd (delete_task d user_id task_id) = d)
   \<and> (\<not> success (fst (update_task d now user_id task_id new_title new_description))
      \<longrightarrow> snd (update_task d now user_id task_id new_title new_description) = d)"
proof -
  have a: "\<not> success (fst (add_task d now user_id title description))
      \<longrightarrow> snd (add_task d now user_id title description) = d"
    by (simp add: add_task_def split: prod.splits)
  have l: "success (list_tasks d user_id include_completed limit)"
    by (simp add: list_tasks_def Let_def)
  have c: "\<not> success (fst (complete_task d now user_id task_id))
      \<longrightarrow> snd (complete_task d now user_id task_id) = d"
    by (simp add: complete_task_def Let_def split: option.splits)
  have dl: "\<not> success (fst (delete_task d user_id task_id))
      \<longrightarrow> snd (delete_task d user_id task_id) = d"
    by (simp add: delete_task_def Let_def split: option.splits)
  have u: "\<not> success (fst (update_task d now user_id task_id new_title new_description))
      \<longrightarrow> snd (update_task d now user_id task_id new_title new_description) = d"
    by (simp add: update_task_def Let_def split: option.splits)
  show ?thesis using a l c dl u by blast
qed

text \<open>
  The theorem at four failing calls on \<open>db0\<close>: a blank title, and alice addressing
  task 2 of bob.
\<close>

theorem failed_tool_leaves_storage_unchanged_witness:
  "\<not> success (fst (add_task db0 5 ''alice'' '' '' [])) \<and> snd (add_task db0 5 ''alice'' '' '' []) = db0
   \<and> \<not> success (fst (complete_task db0 5 ''alice'' 2)) \<and> snd (complete_task db0 5 ''alice'' 2) = db0
   \<and> \<not> success (fst (delete_task db0 ''alice'' 2)) \<and> snd (delete_task db0 ''alice'' 2) = db0
   \<and> \<not> success (fst (update_task db0 5 ''alice'' 2 None None))
   \<and> snd (update_task db0 5 ''alice'' 2 None None) = db0"
proof -
  have a: "\<not> success (fst (add_task db0 5 ''alice'' '' '' []))"
    by (simp add: add_task_def strip_def isspace_def)
  have c: "\<not> success (fst (complete_task db0 5 ''alice'' 2))"
    by (simp add: complete_task_def session_get_db0_2 task2_def)
  have dl: "\<not> success (fst (delete_task db0 ''alice'' 2))"
    by (simp add: delete_task_def session_get_db0_2 task2_def)
  have u: "\<not> success (fst (update_task db0 5 ''alice'' 2 None None))"
    by (simp add: update_task_def)
  show ?thesis
    using a c dl u
      failed_tool_leaves_storage_unchanged[where d = db0 and now = 5 and user_id = "''alice''"
        and title = "'' ''" and description = "[]" and task_id = 2
        and new_title = None and new_description = None]
    by blast
qed

section \<open>Toggling completion over HTTP\<close>

text \<open>
  C9: for a task of the caller, \<open>toggle_complete\<close> negates \<open>completed\<close> whatever its
  value and sets \<open>updated_at\<close> to the current time; a second toggle restores the original
  \<open>completed\<close> value, so after two toggles the stored task differs from the original in
  \<open>updated_at\<close> only.
\<close>

theorem toggle_complete_flips:
  assumes "session_get d task_id = Some task" and "Task_user_id task = user_id"
  shows
    "toggle_complete d now user_id task_id user_id =
       (Inr (task\<lparr>Task_completed := \<not> Task_completed task, Task_updated_at := now\<rparr>),
        session_commit d (task\<lparr>Task_completed := \<not> Task_completed task, Task_updated_at := now\<rparr>))
     \<and> session_get (snd (toggle_complete d now user_id task_id user_id)) task_id =
         Some (task\<lparr>Task_completed := \<not> Task_completed task, Task_updated_at := now\<rparr>)
     \<and> fst (toggle_complete (snd (toggle_complete d now user_id task_id user_id))
              now' user_id task_id user_id) =
         Inr (task\<lparr>Task_updated_at := now'\<rparr>)
     \<and> session_get (snd (toggle_complete (snd (toggle_complete d now user_id task_id user_id))
                           now' user_id task_id user_id)) task_id =
         Some (task\<lparr>Task_updated_at := now'\<rparr>)"
proof -
  have step: "toggle_complete d0 t0 user_id task_id user_id =
       (Inr (task0\<lparr>Task_completed := \<not> Task_completed task0, Task_updated_at := t0\<rparr>),
        session_commit d0 (task0\<lparr>Task_completed := \<not> Task_completed task0, Task_updated_at := t0\<rparr>))
     \<and> session_get (session_commit d0
           (task0\<lparr>Task_completed := \<not> Task_completed task0, Task_updated_at := t0\<rparr>)) task_id =
         Some (task0\<lparr>Task_completed := \<not> Task_completed task0, Task_updated_at := t0\<rparr>)"
    if "session_get d0 task_id = Some task0" "Task_user_id task0 = user_id" for d0 t0 task0
  proof -
    have "Task_id task0 = task_id" using that(1) by (rule session_get_Task_id)
    then show ?thesis
      using that
      by (simp add: toggle_complete_def verify_user_access_def get_task_or_404_def
          session_get_commit Let_def)
  qed
  let ?flipped = "task\<lparr>Task_completed := \<not> Task_completed task, Task_updated_at := now\<rparr>"
  have first: "toggle_complete d now user_id task_id user_id = (Inr ?flipped, session_commit d ?flipped)"
    and stored: "session_get (session_commit d ?flipped) task_id = Some ?flipped"
    using step[OF assms, of now] by simp_all
  have owner: "Task_user_id ?flipped = user_id" using assms(2) by simp
  have restored: "?flipped\<lparr>Task_completed := \<not> Task_completed ?flipped, Task_updated_at := now'\<rparr>
              = task\<lparr>Task_updated_at := now'\<rparr>"
    by simp
  show ?thesis
    using first stored step[OF stored owner, of now'] restored by simp
qed

text \<open>The theorem at task 1 of \<open>db0\<close>, toggled at time 50 and again at time 60.\<close>

theorem toggle_complete_flips_witness:
  "session_get db0 1 = Some task1 \<and> Task_user_id task1 = ''alice''
   \<and> fst (toggle_complete db0 50 ''alice'' 1 ''alice'') =
        Inr (task1\<lparr>Task_completed := True, Task_updated_at := 50\<rparr>)
   \<and> fst (toggle_complete (snd (toggle_complete db0 50 ''alice'' 1 ''alice'')) 60 ''alice'' 1 ''alice'') =
        Inr (task1\<lparr>Task_updated_at := 60\<rparr>)"
proof -
  have h1: "session_get db0 1 = Some task1" by (rule session_get_db0_1)
  have h2: "Task_user_id task1 = ''alice''" by (simp add: task1_def)
  have h3: "\<not> Task_completed task1" by (simp add: task1_def)
  show ?thesis
    using h3 h1 h2 toggle_complete_flips[OF h1 h2, of 50 60] by auto
qed

section \<open>Listing over HTTP\<close>

text \<open>
  C10: the HTTP list operation takes no limit and no completion filter: for the
  requesting user it returns every row of that user, completed or not, in table order,
  whereas the agent tool with its defaults returns at most 50 tasks.
\<close>

theorem routes_list_tasks_returns_all:
  "routes_list_tasks d user_id user_id = Inr (filter (\<lambda>r. Task_user_id r = user_id) (rows d))
   \<and> (\<forall>t \<in> set (rows d). Task_user_id t = user_id \<longrightarrow>
         (\<exists>ts. routes_list_tasks d user_id user_id = Inr ts \<and> t \<in> set ts))
   \<and> (\<exists>p m. list_tasks_default d user_id = Success p m \<and> length (p_tasks p) \<le> 50)"
  by (auto simp: routes_list_tasks_def verify_user_access_def list_tasks_default_def
      list_tasks_def select_tasks_def Let_def)

text \<open>The theorem for alice in \<open>db0\<close>: both of her tasks, the completed one included.\<close>

theorem routes_list_tasks_returns_all_witness:
  "routes_list_tasks db0 ''alice'' ''alice'' = Inr [task1, task3]
   \<and> Task_completed task3 \<and> task3 \<in> set (rows db0)"
  using routes_list_tasks_returns_all[of db0 "''alice''"]
  by (simp add: db0_def task1_def task2_def task3_def)

section \<open>Foreign and missing tasks in the agent tools\<close>

text \<open>
  C1: the claim is that a tool called on another user's task fails exactly as it does on
  a task id that does not exist. Evaluated on \<open>db0\<close> with alice as the caller, task 2
  (bob's) and the absent id 7: \<open>complete_task\<close>, \<open>delete_task\<close> and \<open>update_task\<close>
  all fail without touching the storage, but with the error "Task not found" for the
  foreign task and "Task with ID 7 not found" for the missing one. The HTTP \<open>get_task\<close>
  answers both with the same 404 "Task not found".
\<close>

theorem tool_not_found_errors_differ:
  "complete_task db0 50 ''alice'' 2 = (Failure ''Task not found'', db0)
   \<and> complete_task db0 50 ''alice'' 7 = (Failure ''Task with ID 7 not found'', db0)
   \<and> delete_task db0 ''alice'' 2 = (Failure ''Task not found'', db0)
   \<and> delete_task db0 ''alice'' 7 = (Failure ''Task with ID 7 not found'', db0)
   \<and> update_task db0 50 ''alice'' 2 (Some ''Pay less rent'') None = (Failure ''Task not found'', db0)
   \<and> update_task db0 50 ''alice'' 7 (Some ''Pay less rent'') None
        = (Failure ''Task with ID 7 not found'', db0)
   \<and> get_task db0 ''alice'' 2 ''alice'' = Inl (HTTPException 404 ''Task not found'')
   \<and> get_task db0 ''alice'' 7 ''alice'' = Inl (HTTPException 404 ''Task not found'')"
  by (simp add: complete_task_def delete_task_def update_task_def get_task_def
      get_task_or_404_def verify_user_access_def session_get_db0_2 session_get_db0_7
      task2_def str_int_def)

section \<open>Blank titles in \<open>update_task\<close>\<close>

text \<open>
  C5: the claim is that \<open>update_task\<close> rejects a title that is empty after trimming, as
  \<open>add_task\<close> does. Evaluated on task 1 of \<open>db0\<close>: a title of two spaces, and the empty
  title, are both accepted and the stored title becomes empty, while \<open>add_task\<close> rejects
  the same title with "Task title is required".
\<close>

theorem update_task_stores_blank_title:
  "fst (update_task db0 50 ''alice'' 1 (Some ''  '') None) =
     Success \<lparr>u_id = 1, u_title = [], u_description = ''2 litres'', u_completed = False,
               u_updated_at = 50\<rparr>
       (''Task '' @ quoted [] @ '' has been updated.'')
   \<and> session_get (snd (update_task db0 50 ''alice'' 1 (Some ''  '') None)) 1
       = Some (task1\<lparr>Task_title := [], Task_updated_at := 50\<rparr>)
   \<and> fst (update_task db0 50 ''alice'' 1 (Some []) None) =
     Success \<lparr>u_id = 1, u_title = [], u_description = ''2 litres'', u_completed = False,
               u_updated_at = 50\<rparr>
       (''Task '' @ quoted [] @ '' has been updated.'')
   \<and> fst (add_task db0 50 ''alice'' ''  '' []) = Failure ''Task title is required''"
proof -
  have s: "strip ''  '' = []" by (simp add: strip_def isspace_def)
  have g: "session_get (session_commit db0 (task1\<lparr>Task_title := [], Task_updated_at := 50\<rparr>)) 1
            = Some (task1\<lparr>Task_title := [], Task_updated_at := 50\<rparr>)"
    by (rule session_get_commit[OF session_get_db0_1]) (simp add: task1_def)
  show ?thesis
    using g by (simp add: update_task_def add_task_def s strip_Nil session_get_db0_1 Let_def task1_def)
qed

section \<open>Listing through the agent tool\<close>

text \<open>
  C8, as stated, fails for a negative limit: \<open>list_tasks\<close> hands the integer to the
  engine unchecked, and with \<open>limit = -1\<close> alice's two tasks in \<open>db0\<close> are both returned,
  which is more than \<open>-1\<close> tasks.
\<close>

theorem list_tasks_negative_limit_counterexample:
  "list_tasks db0 ''alice'' True (- 1) =
     Success \<lparr>p_tasks = [task_dict_of task1, task_dict_of task3], p_total = 2, p_pending = 1,
               p_completed = 1\<rparr>
       ''Found 2 task(s): 1 pending, 1 completed.''
   \<and> \<not> int (length [task_dict_of task1, task_dict_of task3]) \<le> - 1"
  by (simp add: list_tasks_def select_tasks_def db0_def task1_def task2_def task3_def
      task_dict_of_def Let_def)

text \<open>
  C8, amended: \<open>list_tasks\<close> always succeeds. With \<open>include_completed = False\<close> no
  returned task is completed; for every limit \<open>n \<ge> 0\<close> at most \<open>n\<close> tasks are returned;
  and for every limit the reported pending and completed counts add up to the reported
  total, all three counting the returned (already limited) list.
\<close>

theorem list_tasks_filter_limit_counts:
  "\<exists>p m. list_tasks d user_id include_completed limit = Success p m
     \<and> (\<not> include_completed \<longrightarrow> (\<forall>t \<in> set (p_tasks p). \<not> d_completed t))
     \<and> (0 \<le> limit \<longrightarrow> int (length (p_tasks p)) \<le> limit)
     \<and> p_pending p + p_completed p = p_total p
     \<and> p_total p = length (p_tasks p)
     \<and> p_pending p = length (filter (\<lambda>t. \<not> d_completed t) (p_tasks p))
     \<and> p_completed p = length (filter d_completed (p_tasks p))"
proof -
  let ?tasks = "select_tasks d user_id include_completed limit"
  let ?list = "map task_dict_of ?tasks"
  have pending_only: "\<forall>t \<in> set ?list. \<not> d_completed t" if "\<not> include_completed"
  proof
    fix t assume "t \<in> set ?list"
    then obtain r where r: "r \<in> set ?tasks" and t: "t = task_dict_of r" by auto
    from r that have "r \<in> set (filter (\<lambda>r. Task_completed r = False)
                          (filter (\<lambda>r. Task_user_id r = user_id) (rows d)))"
      by (auto simp: select_tasks_def Let_def dest: in_set_takeD split: if_splits)
    then show "\<not> d_completed t" by (simp add: t task_dict_of_def)
  qed
  have capped: "int (length ?list) \<le> limit" if "0 \<le> limit"
    using that by (simp add: select_tasks_def Let_def)
  have counts: "length (filter (\<lambda>t. \<not> d_completed t) ?list) + length (filter d_completed ?list)
                = length ?list"
    using sum_length_filter_compl[of d_completed ?list] by simp
  show ?thesis
    unfolding list_tasks_def Let_def
    using pending_only capped counts by simp
qed

text \<open>The theorem for alice's pending tasks in \<open>db0\<close>, capped at one.\<close>

theorem list_tasks_filter_limit_counts_witness:
  "list_tasks db0 ''alice'' False 1 =
     Success \<lparr>p_tasks = [task_dict_of task1], p_total = 1, p_pending = 1, p_completed = 0\<rparr>
       ''Found 1 task(s): 1 pending, 0 completed.''
   \<and> \<not> d_completed (task_dict_of task1)
   \<and> int (length [task_dict_of task1]) \<le> 1"
  using list_tasks_filter_limit_counts[of db0 "''alice''" False 1]
  by (simp add: list_tasks_def select_tasks_def db0_def task1_def task2_def task3_def
      task_dict_of_def Let_def)

section \<open>Validation on creation\<close>

text \<open>
  C2, as stated, fails: \<open>add_task\<close> checks the lengths of the arguments as given, before
  trimming, so a title of one space followed by 200 letters (200 characters once trimmed)
  is rejected; and the HTTP create operation accepts the title of one space, which is
  empty once trimmed.
\<close>

theorem create_trim_then_validate_counterexample:
  "length (strip (CHR '' '' # replicate 200 (CHR ''x''))) = 200
   \<and> fst (add_task db0 50 ''alice'' (CHR '' '' # replicate 200 (CHR ''x'')) [])
       = Failure ''Task title must be 200 characters or less''
   \<and> strip '' '' = []
   \<and> fst (create_task db0 50 ''alice'' \<lparr>create_title = '' '', create_description = []\<rparr> ''alice'')
       = Inr \<lparr>Task_id = 4, Task_user_id = ''alice'', Task_title = '' '', Task_description = [],
               Task_completed = False, Task_created_at = 50, Task_updated_at = 50\<rparr>"
proof -
  have s: "strip (CHR '' '' # replicate 200 (CHR ''x'')) = replicate 200 (CHR ''x'')"
    by (simp add: strip_space_Cons isspace_space strip_replicate not_isspace_x)
  have b: "strip '' '' = []" by (simp add: strip_def isspace_def)
  show ?thesis
    by (simp add: s b add_task_def create_task_def TaskCreate_valid_def verify_user_access_def
        session_add_new_def Let_def db0_def)
qed

text \<open>
  C2, amended: \<open>add_task\<close> fails, leaving the storage unchanged, exactly when the title is
  empty after trimming, or the title as given is longer than 200 characters, or the
  description as given is longer than 1000 characters; a whitespace-only title is rejected
  with "Task title is required". On success it appends a task whose title and description
  are the trimmed arguments, the title between 1 and 200 characters and the description at
  most 1000. The HTTP create operation answers 422, leaving the storage unchanged, when
  the title as sent is empty or longer than 200 characters or the description as sent is
  longer than 1000; when the title is not blank and both fields as sent are within these
  bounds it appends a task whose title and description agree with the sent ones up to
  surrounding whitespace, and exactly when the sent value has none. What the HTTP
  operation does with a title that is blank but not empty is not part of the statement.
\<close>

theorem create_validation:
  "(success (fst (add_task d now user_id title description))
      \<longleftrightarrow> strip title \<noteq> [] \<and> length title \<le> 200 \<and> length description \<le> 1000)
   \<and> (\<not> success (fst (add_task d now user_id title description))
      \<longrightarrow> snd (add_task d now user_id title description) = d)
   \<and> ((\<forall>c \<in> set title. isspace c)
      \<longrightarrow> fst (add_task d now user_id title description) = Failure ''Task title is required'')
   \<and> (success (fst (add_task d now user_id title description)) \<longrightarrow>
        (\<exists>task. rows (snd (add_task d now user_id title description)) = rows d @ [task]
           \<and> Task_title task = strip title \<and> Task_description task = strip description
           \<and> 1 \<le> length (Task_title task) \<and> length (Task_title task) \<le> 200
           \<and> length (Task_description task) \<le> 1000))
   \<and> (create_title task_data = [] \<or> length (create_title task_data) > 200
        \<or> length (create_description task_data) > 1000
      \<longrightarrow> create_task d now user_id task_data user = (Inl RequestValidationError, d))
   \<and> (strip (create_title task_data) \<noteq> [] \<and> length (create_title task_data) \<le> 200
        \<and> length (create_description task_data) \<le> 1000 \<longrightarrow>
        (\<exists>task. fst (create_task d now user_id task_data user_id) = Inr task
           \<and> rows (snd (create_task d now user_id task_data user_id)) = rows d @ [task]
           \<and> strip (Task_title task) = strip (create_title task_data)
           \<and> strip (Task_description task) = strip (create_description task_data)
           \<and> (strip (create_title task_data) = create_title task_data
                \<longrightarrow> Task_title task = create_title task_data)
           \<and> (strip (create_description task_data) = create_description task_data
                \<longrightarrow> Task_description task = create_description task_data)))"
proof -
  let ?ok = "strip title \<noteq> [] \<and> length title \<le> 200 \<and> length description \<le> 1000"
  have empty: "title = [] \<Longrightarrow> strip title = []" by (simp add: strip_Nil)
  have iff: "success (fst (add_task d now user_id title description)) \<longleftrightarrow> ?ok"
    using empty by (auto simp: add_task_def split: prod.splits)
  have unchanged: "\<not> success (fst (add_task d now user_id title description))
      \<longrightarrow> snd (add_task d now user_id title description) = d"
    by (simp add: add_task_def split: prod.splits)
  have blank: "(\<forall>c \<in> set title. isspace c)
      \<longrightarrow> fst (add_task d now user_id title description) = Failure ''Task title is required''"
    by (simp add: add_task_def strip_eq_Nil_iff)
  have stored: "\<exists>task. rows (snd (add_task d now user_id title description)) = rows d @ [task]
           \<and> Task_title task = strip title \<and> Task_description task = strip description
           \<and> 1 \<le> length (Task_title task) \<and> length (Task_title task) \<le> 200
           \<and> length (Task_description task) \<le> 1000" if ok: "?ok"
  proof -
    have t: "1 \<le> length (strip title)" "length (strip title) \<le> 200"
      using ok length_strip_le[of title] by (simp_all add: Suc_le_eq)
    have ds: "length (strip description) \<le> 1000"
      using ok length_strip_le[of description] by simp
    have ne: "title \<noteq> []" using ok empty by blast
    show ?thesis
      using ok ne t ds by (simp add: add_task_def session_add_new_def Let_def strip_Nil)
  qed
  have http_rejects: "create_title task_data = [] \<or> length (create_title task_data) > 200
        \<or> length (create_description task_data) > 1000
      \<longrightarrow> create_task d now user_id task_data user = (Inl RequestValidationError, d)"
    by (auto simp: create_task_def TaskCreate_valid_def)
  have http_accepts: "\<exists>task. fst (create_task d now user_id task_data user_id) = Inr task
           \<and> rows (snd (create_task d now user_id task_data user_id)) = rows d @ [task]
           \<and> strip (Task_title task) = strip (create_title task_data)
           \<and> strip (Task_description task) = strip (create_description task_data)
           \<and> (strip (create_title task_data) = create_title task_data
                \<longrightarrow> Task_title task = create_title task_data)
           \<and> (strip (create_description task_data) = create_description task_data
                \<longrightarrow> Task_description task = create_description task_data)"
    if h: "strip (create_title task_data) \<noteq> [] \<and> length (create_title task_data) \<le> 200
        \<and> length (create_description task_data) \<le> 1000"
  proof -
    have "create_title task_data \<noteq> []" using h by (auto simp: strip_Nil)
    then have "TaskCreate_valid task_data"
      using h by (simp add: TaskCreate_valid_def Suc_le_eq)
    then show ?thesis
      by (simp add: create_task_def verify_user_access_def session_add_new_def Let_def)
  qed
  show ?thesis
    using iff unchanged blank stored http_rejects http_accepts by blast
qed

text \<open>
  The theorem on \<open>db0\<close>: the tool given a title and a description with surrounding
  blanks, the HTTP operation given an empty title and then a proper one.
\<close>

theorem create_validation_witness:
  "success (fst (add_task db0 50 ''alice'' '' Water plants '' '' today ''))
   \<and> (\<exists>task. rows (snd (add_task db0 50 ''alice'' '' Water plants '' '' today '')) = rows db0 @ [task]
         \<and> Task_title task = ''Water plants'' \<and> Task_description task = ''today'')
   \<and> create_task db0 50 ''alice'' \<lparr>create_title = [], create_description = ''today''\<rparr> ''alice''
       = (Inl RequestValidationError, db0)
   \<and> (\<exists>task. fst (create_task db0 50 ''alice''
                     \<lparr>create_title = ''Water plants'', create_description = ''today''\<rparr> ''alice'')
               = Inr task \<and> strip (Task_title task) = ''Water plants'')"
proof -
  have s1: "strip '' Water plants '' = ''Water plants''" by (simp add: strip_def isspace_def)
  have s2: "strip '' today '' = ''today''" by (simp add: strip_def isspace_def)
  have s3: "strip ''Water plants'' = ''Water plants''" by (simp add: strip_def isspace_def)
  have ok: "strip '' Water plants '' \<noteq> [] \<and> length '' Water plants '' \<le> 200
            \<and> length '' today '' \<le> 1000"
    by (simp add: s1)
  have bad: "create_title \<lparr>create_title = [], create_description = ''today''\<rparr> = []
        \<or> length (create_title \<lparr>create_title = [], create_description = ''today''\<rparr>) > 200
        \<or> length (create_description \<lparr>create_title = [], create_description = ''today''\<rparr>) > 1000"
    by simp
  have good: "strip (create_title \<lparr>create_title = ''Water plants'', create_description = ''today''\<rparr>) \<noteq> []
        \<and> length (create_title \<lparr>create_title = ''Water plants'', create_description = ''today''\<rparr>) \<le> 200
        \<and> length (create_description \<lparr>create_title = ''Water plants'', create_description = ''today''\<rparr>)
            \<le> 1000"
    by (simp add: s3)
  note a = create_validation[of db0 50 "''alice''" "'' Water plants ''" "'' today ''"
      "\<lparr>create_title = ''Water plants'', create_description = ''today''\<rparr>" "''alice''"]
  note b = create_validation[of db0 50 "''alice''" "'' Water plants ''" "'' today ''"
      "\<lparr>create_title = [], create_description = ''today''\<rparr>" "''alice''"]
  have succ: "success (fst (add_task db0 50 ''alice'' '' Water plants '' '' today ''))"
    by (rule iffD2[OF a[THEN conjunct1] ok])
  have "\<exists>task. rows (snd (add_task db0 50 ''alice'' '' Water plants '' '' today '')) = rows db0 @ [task]
         \<and> Task_title task = strip '' Water plants '' \<and> Task_description task = strip '' today ''"
    using mp[OF a[THEN conjunct2, THEN conjunct2, THEN conjunct2, THEN conjunct1] succ] by blast
  then have st: "\<exists>task. rows (snd (add_task db0 50 ''alice'' '' Water plants '' '' today '')) = rows db0 @ [task]
         \<and> Task_title task = ''Water plants'' \<and> Task_description task = ''today''"
    unfolding s1 s2 .
  have rej: "create_task db0 50 ''alice'' \<lparr>create_title = [], create_description = ''today''\<rparr> ''alice''
       = (Inl RequestValidationError, db0)"
    by (rule mp[OF b[THEN conjunct2, THEN conjunct2, THEN conjunct2, THEN conjunct2, THEN conjunct1]
          bad])
  have "\<exists>task. fst (create_task db0 50 ''alice''
                     \<lparr>create_title = ''Water plants'', create_description = ''today''\<rparr> ''alice'')
               = Inr task
          \<and> strip (Task_title task)
              = strip (create_title \<lparr>create_title = ''Water plants'', create_description = ''today''\<rparr>)"
    using mp[OF a[THEN conjunct2, THEN conjunct2, THEN conjunct2, THEN conjunct2, THEN conjunct2]
        good]
    by blast
  then have acc: "\<exists>task. fst (create_task db0 50 ''alice''
                     \<lparr>create_title = ''Water plants'', create_description = ''today''\<rparr> ''alice'')
               = Inr task \<and> strip (Task_title task) = ''Water plants''"
    by (simp add: s3)
  show ?thesis by (rule conjI[OF succ conjI[OF st conjI[OF rej acc]]])
qed

section \<open>An update that supplies no field\<close>

text \<open>
  C4: the claim is that an update with neither title nor description fails with a
  validation error and leaves the task unchanged, over HTTP as in the agent tool.
  Evaluated on task 1 of \<open>db0\<close>: the HTTP update with both fields absent passes the
  schema, succeeds and stores \<open>updated_at = 50\<close> where it was 10, while the tool
  \<open>update_task\<close> rejects the same call with "At least one field (title or description)
  must be provided" and leaves the storage as it was.
\<close>

theorem routes_update_task_accepts_empty_update:
  "routes_update_task db0 50 ''alice'' 1 \<lparr>update_title = None, update_description = None\<rparr> ''alice''
     = (Inr (task1\<lparr>Task_updated_at := 50\<rparr>),
        db0\<lparr>rows := [task1\<lparr>Task_updated_at := 50\<rparr>, task2, task3]\<rparr>)
   \<and> Task_updated_at task1 = 10
   \<and> update_task db0 50 ''alice'' 1 None None
       = (Failure ''At least one field (title or description) must be provided'', db0)"
  by (simp add: routes_update_task_def TaskUpdate_valid_def verify_user_access_def
      get_task_or_404_def session_get_db0_1 session_commit_def Let_def update_task_def)
     (simp add: db0_def task1_def task2_def task3_def)

section \<open>Statuses of the HTTP operations\<close>

text \<open>
  C7, as stated, fails: \<open>verify_user_access\<close> raises 403 when the user id of the URL is
  not the authenticated user's, so an HTTP operation can answer 403. On \<open>db0\<close>, bob
  requesting alice's task 1, or alice's list, is answered with 403.
\<close>

theorem http_forbidden_counterexample:
  "get_task db0 ''alice'' 1 ''bob'' = Inl (HTTPException 403 ''Access denied: user_id mismatch'')
   \<and> response_status 200 (get_task db0 ''alice'' 1 ''bob'') = 403
   \<and> response_status 200 (routes_list_tasks db0 ''alice'' ''bob'') = 403"
  by (simp add: get_task_def routes_list_tasks_def verify_user_access_def response_status_def)

text \<open>
  C7, amended. A create or update whose body violates the schema is answered with 422,
  whatever the user ids. Otherwise, a request whose URL user id differs from the
  authenticated user's is answered by every operation with 403 "Access denied: user_id
  mismatch". Otherwise, get, update, delete and toggle answer a missing task and a task
  of another user alike with 404 "Task not found", and serve a task of the caller's own
  (200, or 204 for delete); list answers 200 and a valid create 201. Every failure leaves
  the storage unchanged. So within the caller's own URL no operation answers 403, and
  every failure status is 404 or 422.
\<close>

theorem http_failure_statuses:
  "(\<not> TaskCreate_valid task_data \<longrightarrow>
      create_task d now user_id task_data user = (Inl RequestValidationError, d)
      \<and> response_status 201 (fst (create_task d now user_id task_data user)) = 422)
   \<and> (\<not> TaskUpdate_valid update_data \<longrightarrow>
      routes_update_task d now user_id task_id update_data user = (Inl RequestValidationError, d)
      \<and> response_status 200 (fst (routes_update_task d now user_id task_id update_data user)) = 422)
   \<and> (user_id \<noteq> user \<longrightarrow>
        routes_list_tasks d user_id user
          = Inl (HTTPException 403 ''Access denied: user_id mismatch'')
      \<and> get_task d user_id task_id user
          = Inl (HTTPException 403 ''Access denied: user_id mismatch'')
      \<and> routes_delete_task d user_id task_id user
          = (Inl (HTTPException 403 ''Access denied: user_id mismatch''), d)
      \<and> toggle_complete d now user_id task_id user
          = (Inl (HTTPException 403 ''Access denied: user_id mismatch''), d)
      \<and> (TaskCreate_valid task_data \<longrightarrow>
            create_task d now user_id task_data user
              = (Inl (HTTPException 403 ''Access denied: user_id mismatch''), d))
      \<and> (TaskUpdate_valid update_data \<longrightarrow>
            routes_update_task d now user_id task_id update_data user
              = (Inl (HTTPException 403 ''Access denied: user_id mismatch''), d)))
   \<and> (user_id = user
        \<and> (session_get d task_id = None
             \<or> (\<exists>task. session_get d task_id = Some task \<and> Task_user_id task \<noteq> user_id)) \<longrightarrow>
        get_task d user_id task_id user = Inl (HTTPException 404 ''Task not found'')
      \<and> routes_delete_task d user_id task_id user
          = (Inl (HTTPException 404 ''Task not found''), d)
      \<and> toggle_complete d now user_id task_id user
          = (Inl (HTTPException 404 ''Task not found''), d)
      \<and> (TaskUpdate_valid update_data \<longrightarrow>
            routes_update_task d now user_id task_id update_data user
              = (Inl (HTTPException 404 ''Task not found''), d)))
   \<and> (user_id = user \<and> session_get d task_id = Some task \<and> Task_user_id task = user_id \<longrightarrow>
        get_task d user_id task_id user = Inr task
      \<and> response_status 204 (fst (routes_delete_task d user_id task_id user)) = 204
      \<and> response_status 200 (fst (toggle_complete d now user_id task_id user)) = 200
      \<and> (TaskUpdate_valid update_data \<longrightarrow>
            response_status 200 (fst (routes_update_task d now user_id task_id update_data user))
              = 200))
   \<and> (user_id = user \<longrightarrow>
        response_status 200 (routes_list_tasks d user_id user) = 200
      \<and> (TaskCreate_valid task_data \<longrightarrow>
            response_status 201 (fst (create_task d now user_id task_data user)) = 201)
      \<and> response_status 201 (fst (create_task d now user_id task_data user)) \<in> {201, 422}
      \<and> response_status 200 (get_task d user_id task_id user) \<in> {200, 404}
      \<and> response_status 200 (fst (routes_update_task d now user_id task_id update_data user))
           \<in> {200, 404, 422}
      \<and> response_status 204 (fst (routes_delete_task d user_id task_id user)) \<in> {204, 404}
      \<and> response_status 200 (fst (toggle_complete d now user_id task_id user)) \<in> {200, 404})"
proof -
  let ?forbidden = "HTTPException 403 ''Access denied: user_id mismatch''"
  let ?not_found = "HTTPException 404 ''Task not found''"
  have bad_create: "create_task d now user_id task_data user = (Inl RequestValidationError, d)
      \<and> response_status 201 (fst (create_task d now user_id task_data user)) = 422"
    if "\<not> TaskCreate_valid task_data"
    using that by (simp add: create_task_def response_status_def)
  have bad_update:
    "routes_update_task d now user_id task_id update_data user = (Inl RequestValidationError, d)
      \<and> response_status 200 (fst (routes_update_task d now user_id task_id update_data user)) = 422"
    if "\<not> TaskUpdate_valid update_data"
    using that by (simp add: routes_update_task_def response_status_def)
  have other: "routes_list_tasks d user_id user = Inl ?forbidden
      \<and> get_task d user_id task_id user = Inl ?forbidden
      \<and> routes_delete_task d user_id task_id user = (Inl ?forbidden, d)
      \<and> toggle_complete d now user_id task_id user = (Inl ?forbidden, d)
      \<and> (TaskCreate_valid task_data \<longrightarrow>
            create_task d now user_id task_data user = (Inl ?forbidden, d))
      \<and> (TaskUpdate_valid update_data \<longrightarrow>
            routes_update_task d now user_id task_id update_data user = (Inl ?forbidden, d))"
    if "user_id \<noteq> user"
    using that
    by (simp add: routes_list_tasks_def create_task_def get_task_def routes_update_task_def
        routes_delete_task_def toggle_complete_def verify_user_access_def)
  have absent: "get_task_or_404 d user_id task_id = Inl ?not_found"
    if "session_get d task_id = None
        \<or> (\<exists>task. session_get d task_id = Some task \<and> Task_user_id task \<noteq> user_id)"
    using that by (auto simp: get_task_or_404_def)
  have missing: "get_task d user_id task_id user = Inl ?not_found
      \<and> routes_delete_task d user_id task_id user = (Inl ?not_found, d)
      \<and> toggle_complete d now user_id task_id user = (Inl ?not_found, d)
      \<and> (TaskUpdate_valid update_data \<longrightarrow>
            routes_update_task d now user_id task_id update_data user = (Inl ?not_found, d))"
    if "user_id = user" and "session_get d task_id = None
        \<or> (\<exists>task. session_get d task_id = Some task \<and> Task_user_id task \<noteq> user_id)"
    using that(1) absent[OF that(2)]
    by (simp add: get_task_def routes_update_task_def routes_delete_task_def
        toggle_complete_def verify_user_access_def)
  have present: "get_task d user_id task_id user = Inr task
      \<and> response_status 204 (fst (routes_delete_task d user_id task_id user)) = 204
      \<and> response_status 200 (fst (toggle_complete d now user_id task_id user)) = 200
      \<and> (TaskUpdate_valid update_data \<longrightarrow>
            response_status 200 (fst (routes_update_task d now user_id task_id update_data user))
              = 200)"
    if "user_id = user" and "session_get d task_id = Some task" and "Task_user_id task = user_id"
  proof -
    have "get_task_or_404 d user_id task_id = Inr task"
      using that(2,3) by (simp add: get_task_or_404_def)
    then show ?thesis
      using that(1)
      by (simp add: get_task_def routes_update_task_def routes_delete_task_def
          toggle_complete_def verify_user_access_def response_status_def Let_def)
  qed
  have lookup: "(\<exists>t. get_task_or_404 d user_id task_id = Inr t)
                 \<or> get_task_or_404 d user_id task_id = Inl ?not_found"
    by (simp add: get_task_or_404_def split: option.splits)
  have own: "response_status 200 (routes_list_tasks d user_id user) = 200
      \<and> (TaskCreate_valid task_data \<longrightarrow>
            response_status 201 (fst (create_task d now user_id task_data user)) = 201)
      \<and> response_status 201 (fst (create_task d now user_id task_data user)) \<in> {201, 422}
      \<and> response_status 200 (get_task d user_id task_id user) \<in> {200, 404}
      \<and> response_status 200 (fst (routes_update_task d now user_id task_id update_data user))
           \<in> {200, 404, 422}
      \<and> response_status 204 (fst (routes_delete_task d user_id task_id user)) \<in> {204, 404}
      \<and> response_status 200 (fst (toggle_complete d now user_id task_id user)) \<in> {200, 404}"
    if "user_id = user"
    using that lookup
    by (auto simp: routes_list_tasks_def create_task_def get_task_def routes_update_task_def
        routes_delete_task_def toggle_complete_def verify_user_access_def response_status_def
        session_add_new_def Let_def)
  show ?thesis
    using bad_create bad_update other missing present own by blast
qed

text \<open>
  The theorem on \<open>db0\<close>: invalid bodies, bob asking under alice's URL, alice asking for
  bob's task 2 and for the absent task 7, and alice asking for her own task 1 and list.
\<close>

theorem http_failure_statuses_witness:
  "create_task db0 50 ''alice'' \<lparr>create_title = [], create_description = []\<rparr> ''alice''
     = (Inl RequestValidationError, db0)
   \<and> response_status 200 (fst (routes_update_task db0 50 ''alice'' 1
        \<lparr>update_title = Some [], update_description = None\<rparr> ''alice'')) = 422
   \<and> get_task db0 ''alice'' 1 ''bob'' = Inl (HTTPException 403 ''Access denied: user_id mismatch'')
   \<and> get_task db0 ''alice'' 2 ''alice'' = Inl (HTTPException 404 ''Task not found'')
   \<and> get_task db0 ''alice'' 7 ''alice'' = Inl (HTTPException 404 ''Task not found'')
   \<and> toggle_complete db0 50 ''alice'' 2 ''alice'' = (Inl (HTTPException 404 ''Task not found''), db0)
   \<and> get_task db0 ''alice'' 1 ''alice'' = Inr task1
   \<and> response_status 200 (routes_list_tasks db0 ''alice'' ''alice'') = 200"
proof -
  let ?c = "\<lparr>create_title = [], create_description = []\<rparr>"
  let ?u = "\<lparr>update_title = Some [], update_description = None\<rparr>"
  have bc: "\<not> TaskCreate_valid ?c" by (simp add: TaskCreate_valid_def)
  have bu: "\<not> TaskUpdate_valid ?u" by (simp add: TaskUpdate_valid_def)
  have ne: "''alice'' \<noteq> ''bob''" by simp
  have foreign: "''alice'' = ''alice'' \<and> (session_get db0 2 = None
      \<or> (\<exists>task. session_get db0 2 = Some task \<and> Task_user_id task \<noteq> ''alice''))"
    by (simp add: session_get_db0_2 task2_def)
  have gone: "''alice'' = ''alice'' \<and> (session_get db0 7 = None
      \<or> (\<exists>task. session_get db0 7 = Some task \<and> Task_user_id task \<noteq> ''alice''))"
    by (simp add: session_get_db0_7)
  have mine: "''alice'' = ''alice'' \<and> session_get db0 1 = Some task1
      \<and> Task_user_id task1 = ''alice''"
    by (simp add: session_get_db0_1 task1_def)
  note a = http_failure_statuses[of ?c db0 50 "''alice''" "''alice''" ?u 1 task1]
  note b = http_failure_statuses[of ?c db0 50 "''alice''" "''bob''" ?u 1 task1]
  note c = http_failure_statuses[of ?c db0 50 "''alice''" "''alice''" ?u 2 task1]
  note e = http_failure_statuses[of ?c db0 50 "''alice''" "''alice''" ?u 7 task1]
  have 1: "create_task db0 50 ''alice'' ?c ''alice'' = (Inl RequestValidationError, db0)"
    using mp[OF a[THEN conjunct1] bc] by (rule conjunct1)
  have 2: "response_status 200 (fst (routes_update_task db0 50 ''alice'' 1 ?u ''alice'')) = 422"
    using mp[OF a[THEN conjunct2, THEN conjunct1] bu] by (rule conjunct2)
  have 3: "get_task db0 ''alice'' 1 ''bob'' = Inl (HTTPException 403 ''Access denied: user_id mismatch'')"
    using mp[OF b[THEN conjunct2, THEN conjunct2, THEN conjunct1] ne] by blast
  have 4: "get_task db0 ''alice'' 2 ''alice'' = Inl (HTTPException 404 ''Task not found'')"
    and 6: "toggle_complete db0 50 ''alice'' 2 ''alice'' = (Inl (HTTPException 404 ''Task not found''), db0)"
    using mp[OF c[THEN conjunct2, THEN conjunct2, THEN conjunct2, THEN conjunct1] foreign]
    by blast+
  have 5: "get_task db0 ''alice'' 7 ''alice'' = Inl (HTTPException 404 ''Task not found'')"
    using mp[OF e[THEN conjunct2, THEN conjunct2, THEN conjunct2, THEN conjunct1] gone] by blast
  have 7: "get_task db0 ''alice'' 1 ''alice'' = Inr task1"
    using mp[OF a[THEN conjunct2, THEN conjunct2, THEN conjunct2, THEN conjunct2, THEN conjunct1]
        mine]
    by blast
  have 8: "response_status 200 (routes_list_tasks db0 ''alice'' ''alice'') = 200"
    using mp[OF a[THEN conjunct2, THEN conjunct2, THEN conjunct2, THEN conjunct2, THEN conjunct2]
        refl]
    by blast
  show ?thesis
    by (rule conjI[OF 1 conjI[OF 2 conjI[OF 3 conjI[OF 4 conjI[OF 5 conjI[OF 6 conjI[OF 7 8]]]]]]])
qed

end
